theory Spec2Isabelle
  imports Complex_Main "HOL-Library.Sublist"
begin

section \<open>Data model (types.ts)\<close>

text \<open>
  The interfaces of \<^verbatim>\<open>types.ts\<close>. An optional TypeScript field is an \<open>option\<close>;
  \<^verbatim>\<open>painLevel?: number | null\<close> has two ways of being absent (\<^verbatim>\<open>undefined\<close> and
  \<^verbatim>\<open>null\<close>) which every reader of the field treats alike, so both are \<open>None\<close>.
  The pain level is a JavaScript number; the model covers its integer values.
  Field \<^verbatim>\<open>id\<close> is written \<open>att_id\<close> and \<open>msg_id\<close> (HOL has a constant \<open>id\<close>),
  field \<^verbatim>\<open>type\<close> is \<open>att_type\<close>.
\<close>

datatype MediaType = Image | Video | Audio

record MediaAttachment =
  att_id :: string
  att_type :: MediaType
  mimeType :: string
  data :: string
  previewUrl :: "string option"

datatype Role = User | Model

type_synonym chunk = string

record ChatMessage =
  msg_id :: string
  role :: Role
  "text" :: "string option"
  attachments :: "MediaAttachment list option"
  painLevel :: "int option"
  groundingChunks :: "chunk list option"
  timestamp :: int

record AnalysisResult =
  result_text :: string
  result_groundingChunks :: "chunk list option"

datatype AppState = IDLE | RECORDING | ANALYZING | RESULT | ERROR


section \<open>Conversation formatter (services/geminiService.ts)\<close>

text \<open>
  JavaScript renders an integer number inside a template literal in decimal, with a
  leading minus sign when it is negative.
\<close>

definition digit :: "nat \<Rightarrow> char" where
  "digit d = ''0123456789'' ! d"

fun nat_to_string :: "nat \<Rightarrow> string" where
  "nat_to_string n =
     (if n < 10 then [digit n] else nat_to_string (n div 10) @ [digit (n mod 10)])"

definition num_to_string :: "int \<Rightarrow> string" where
  "num_to_string i =
     (if i < 0 then CHR ''-'' # nat_to_string (nat (- i)) else nat_to_string (nat i))"

text \<open>
  The parts of one formatted turn: \<^verbatim>\<open>{ inlineData: { mimeType, data } }\<close> and
  \<^verbatim>\<open>{ text }\<close>. The text of a model turn is \<^verbatim>\<open>msg.text\<close> as it is stored, which
  may be undefined, so a text part carries an optional string.
\<close>

datatype Part = InlineData string string | TextPart "string option"

record Content =
  content_role :: Role
  parts :: "Part list"

text \<open>The bracketed note, and what line 102 appends: two newlines and the note.\<close>

definition pain_annotation :: "int \<Rightarrow> string" where
  "pain_annotation n =
     ''[System Note: User indicates Pain Level: '' @ num_to_string n @ ''/10]''"

definition pain_suffix :: "int \<Rightarrow> string" where
  "pain_suffix n = ''\<newline>\<newline>'' @ pain_annotation n"

definition default_prompt :: string where
  "default_prompt = ''Please analyze this.''"

text \<open>\<^verbatim>\<open>msg.attachments.forEach(att => parts.push({inlineData: ...}))\<close>, skipped when
  the field is undefined.\<close>

definition attachmentList :: "ChatMessage \<Rightarrow> MediaAttachment list" where
  "attachmentList msg = (case attachments msg of None \<Rightarrow> [] | Some atts \<Rightarrow> atts)"

definition attachmentParts :: "ChatMessage \<Rightarrow> Part list" where
  "attachmentParts msg =
     map (\<lambda>att. InlineData (mimeType att) (data att)) (attachmentList msg)"

text \<open>\<^verbatim>\<open>msg.text || ""\<close>: an undefined text and an empty one both give the empty string.\<close>

definition textOrEmpty :: "ChatMessage \<Rightarrow> string" where
  "textOrEmpty msg = (case text msg of None \<Rightarrow> [] | Some t \<Rightarrow> t)"

text \<open>
  The variable \<^verbatim>\<open>textContent\<close> after lines 98 to 107: \<^verbatim>\<open>msg.text || ""\<close>, then the
  pain note when the level is neither undefined nor null, then the default prompt when
  the string is still empty and there is no attachment.
\<close>

definition textContent :: "ChatMessage \<Rightarrow> string" where
  "textContent msg =
     (let t0 = textOrEmpty msg;
          t1 = (case painLevel msg of None \<Rightarrow> t0 | Some n \<Rightarrow> t0 @ pain_suffix n)
      in if t1 = [] \<and> attachmentList msg = [] then default_prompt else t1)"

text \<open>The callback of \<^verbatim>\<open>history.map\<close>; its index argument is unused.\<close>

definition formatMessage :: "ChatMessage \<Rightarrow> Content" where
  "formatMessage msg =
     (if role msg = User then
        \<lparr> content_role = role msg,
          parts = attachmentParts msg @
                  (if textContent msg \<noteq> [] then [TextPart (Some (textContent msg))] else []) \<rparr>
      else
        \<lparr> content_role = role msg, parts = [TextPart (text msg)] \<rparr>)"

definition formattedHistory :: "ChatMessage list \<Rightarrow> Content list" where
  "formattedHistory history = map formatMessage history"


section \<open>Analysis client (services/geminiService.ts)\<close>

text \<open>
  \<^verbatim>\<open>analyzeHealthCondition\<close> builds one request and awaits one call of
  \<^verbatim>\<open>ai.models.generateContent\<close>. The remote call is a parameter of the model: it
  returns the provider's response, or \<open>Inl\<close> of whatever it threw. The long prompt
  constant \<^verbatim>\<open>SYSTEM_INSTRUCTION\<close> is a parameter too; no property below reads it.
  The result pairs what \<^verbatim>\<open>console.error\<close> logged with the outcome: \<open>Inr\<close> the
  returned value, \<open>Inl\<close> the error thrown to the caller.
\<close>

record LatLng =
  lat :: real
  lng :: real

record GenerateRequest =
  model :: string
  contents :: "Content list"
  systemInstruction :: string
  temperature :: rat

record GenerateResponse =
  response_text :: "string option"

datatype JsError = Error string

definition not_understood :: string where
  "not_understood = ''I'm having trouble understanding right now. Please try again.''"

definition service_unreachable :: string where
  "service_unreachable =
     ''I couldn't reach the service. Please check your connection and try again.''"

definition generateRequest :: "string \<Rightarrow> ChatMessage list \<Rightarrow> GenerateRequest" where
  "generateRequest SYSTEM_INSTRUCTION history =
     \<lparr> model = ''gemini-2.5-flash'', contents = formattedHistory history,
       systemInstruction = SYSTEM_INSTRUCTION, temperature = 4 / 10 \<rparr>"

definition analyzeHealthCondition ::
  "string \<Rightarrow> (GenerateRequest \<Rightarrow> 'e + GenerateResponse) \<Rightarrow> ChatMessage list \<Rightarrow>
     LatLng option \<Rightarrow> 'e list \<times> (JsError + AnalysisResult)"
where
  "analyzeHealthCondition SYSTEM_INSTRUCTION generateContent history location =
     (case generateContent (generateRequest SYSTEM_INSTRUCTION history) of
        Inr response \<Rightarrow>
          ([], Inr \<lparr> result_text =
                      (case response_text response of
                         None \<Rightarrow> not_understood
                       | Some t \<Rightarrow> if t = [] then not_understood else t),
                    result_groundingChunks = Some [] \<rparr>)
      | Inl error \<Rightarrow> ([error], Inl (Error service_unreachable)))"


section \<open>Session controller (App.tsx)\<close>

text \<open>
  The state hooks of \<^verbatim>\<open>App\<close>. The hooks \<^verbatim>\<open>attachments\<close> and \<^verbatim>\<open>painLevel\<close> carry the
  prefix \<open>app_\<close>, the message fields of the same names being taken.
\<close>

record App =
  inputText :: string
  app_attachments :: "MediaAttachment list"
  app_painLevel :: "int option"
  messages :: "ChatMessage list"
  status :: AppState
  errorMessage :: "string option"
  location :: "LatLng option"
  darkMode :: bool

definition initialApp :: App where
  "initialApp =
     \<lparr> inputText = [], app_attachments = [], app_painLevel = None, messages = [],
       status = IDLE, errorMessage = None, location = None, darkMode = False \<rparr>"

definition handleCapture :: "MediaAttachment \<Rightarrow> App \<Rightarrow> App" where
  "handleCapture attachment st = st\<lparr>app_attachments := app_attachments st @ [attachment]\<rparr>"

definition removeAttachment :: "string \<Rightarrow> App \<Rightarrow> App" where
  "removeAttachment i st =
     st\<lparr>app_attachments := filter (\<lambda>a. att_id a \<noteq> i) (app_attachments st)\<rparr>"

definition reset :: "App \<Rightarrow> App" where
  "reset st =
     st\<lparr>inputText := [], app_attachments := [], app_painLevel := None, messages := [],
        status := IDLE, errorMessage := None\<rparr>"

text \<open>
  \<^verbatim>\<open>handleSubmit\<close>, split at its \<^verbatim>\<open>await\<close>. The two guards of lines 64 and 65 return
  before anything is done. \<^verbatim>\<open>Date.now()\<close> is read twice before the call and twice
  after it; the four readings are arguments.
\<close>

definition submitRejected :: "bool \<Rightarrow> App \<Rightarrow> bool" where
  "submitRejected isFollowUp st =
     ((inputText st = [] \<and> app_attachments st = [] \<and> \<not> isFollowUp) \<or>
      (isFollowUp \<and> inputText st = []))"

definition newMessage :: "bool \<Rightarrow> int \<Rightarrow> int \<Rightarrow> App \<Rightarrow> ChatMessage" where
  "newMessage isFollowUp now1 now2 st =
     \<lparr> msg_id = num_to_string now1, role = User, text = Some (inputText st),
       attachments = Some (if isFollowUp then [] else app_attachments st),
       painLevel = (if isFollowUp then None else app_painLevel st),
       groundingChunks = None, timestamp = now2 \<rparr>"

text \<open>The state after lines 76 to 85, all set before the call is awaited.\<close>

definition afterSubmit :: "bool \<Rightarrow> int \<Rightarrow> int \<Rightarrow> App \<Rightarrow> App" where
  "afterSubmit isFollowUp now1 now2 st =
     (let newHistory = messages st @ [newMessage isFollowUp now1 now2 st]
      in st\<lparr>messages := newHistory, inputText := [],
            app_attachments := (if \<not> isFollowUp then [] else app_attachments st),
            status := ANALYZING, errorMessage := None\<rparr>)"

text \<open>The synchronous part: \<open>None\<close> when a guard returns, else the new state and the
  history handed to the analysis client.\<close>

definition submitSync ::
  "bool \<Rightarrow> int \<Rightarrow> int \<Rightarrow> App \<Rightarrow> (App \<times> ChatMessage list) option"
where
  "submitSync isFollowUp now1 now2 st =
     (if submitRejected isFollowUp st then None
      else Some (afterSubmit isFollowUp now1 now2 st,
                 messages st @ [newMessage isFollowUp now1 now2 st]))"

definition modelMessage :: "int \<Rightarrow> int \<Rightarrow> AnalysisResult \<Rightarrow> ChatMessage" where
  "modelMessage now3 now4 result =
     \<lparr> msg_id = num_to_string (now3 + 1), role = Model, text = Some (result_text result),
       attachments = None, painLevel = None,
       groundingChunks = result_groundingChunks result, timestamp = now4 \<rparr>"

definition connection_trouble :: string where
  "connection_trouble =
     ''I'm having trouble connecting right now. Please check your connection and try again.''"

text \<open>
  The part after the \<^verbatim>\<open>await\<close>, on the state of the moment the call settles: the
  \<^verbatim>\<open>try\<close> branch appends the model message with a functional update, the \<^verbatim>\<open>catch\<close>
  branch stores \<^verbatim>\<open>error.message || "..."\<close>.
\<close>

definition submitSettle :: "int \<Rightarrow> int \<Rightarrow> JsError + AnalysisResult \<Rightarrow> App \<Rightarrow> App" where
  "submitSettle now3 now4 outcome st =
     (case outcome of
        Inr result \<Rightarrow>
          st\<lparr>messages := messages st @ [modelMessage now3 now4 result], status := RESULT\<rparr>
      | Inl (Error message) \<Rightarrow>
          st\<lparr>errorMessage := Some (if message = [] then connection_trouble else message),
             status := ERROR\<rparr>)"

text \<open>A whole call of \<^verbatim>\<open>handleSubmit\<close> with nothing happening while it awaits.\<close>

definition handleSubmit ::
  "bool \<Rightarrow> int \<Rightarrow> int \<Rightarrow> int \<Rightarrow> int \<Rightarrow>
     (ChatMessage list \<Rightarrow> LatLng option \<Rightarrow> JsError + AnalysisResult) \<Rightarrow> App \<Rightarrow> App"
where
  "handleSubmit isFollowUp now1 now2 now3 now4 analyze st =
     (case submitSync isFollowUp now1 now2 st of
        None \<Rightarrow> st
      | Some (st1, newHistory) \<Rightarrow>
          submitSettle now3 now4 (analyze newHistory (location st)) st1)"

text \<open>The pain selector: the buttons of line 138 and the handler of line 141.\<close>

definition pain_levels :: "int list" where
  "pain_levels = [1, 2, 3, 4, 5, 6, 7, 8, 9, 10]"

definition clickPain :: "int \<Rightarrow> App \<Rightarrow> App" where
  "clickPain level st =
     st\<lparr>app_painLevel := (if Some level = app_painLevel st then None else Some level)\<rparr>"

text \<open>
  What the user and the platform can do to the session, with the conditions under which the
  rendered page offers it: the intake form (recorder, attachment grid, pain selector and
  the start button) is rendered only while there are no messages, the follow-up input and
  the reset button only once there are; the text area and the send buttons are disabled
  while the status is ANALYZING. \<open>Settle\<close> is the awaited call of an earlier submit
  resolving or rejecting; it and \<open>Capture\<close> are allowed at any moment, which covers
  every real run. \<open>fire\<close> is \<open>None\<close> where the page does not offer the event.
\<close>

datatype Event =
    TypeText string
  | Capture MediaAttachment
  | RemoveAttachment string
  | ClickPain int
  | ClickStart int int
  | SendFollowUp int int
  | Settle int int "JsError + AnalysisResult"
  | ClickReset
  | ToggleDark
  | LocationFound LatLng

fun fire :: "Event \<Rightarrow> App \<Rightarrow> App option" where
  "fire (TypeText s) st =
     (if status st = ANALYZING then None else Some (st\<lparr>inputText := s\<rparr>))"
| "fire (Capture a) st = Some (handleCapture a st)"
| "fire (RemoveAttachment i) st =
     (if messages st = [] then Some (removeAttachment i st) else None)"
| "fire (ClickPain level) st =
     (if messages st = [] \<and> level \<in> set pain_levels then Some (clickPain level st) else None)"
| "fire (ClickStart now1 now2) st =
     (if messages st = [] \<and>
         \<not> (status st = ANALYZING \<or> (app_attachments st = [] \<and> inputText st = []))
      then (case submitSync False now1 now2 st of None \<Rightarrow> Some st | Some (st1, _) \<Rightarrow> Some st1)
      else None)"
| "fire (SendFollowUp now1 now2) st =
     (if messages st \<noteq> [] \<and> status st \<noteq> ANALYZING
      then (case submitSync True now1 now2 st of None \<Rightarrow> Some st | Some (st1, _) \<Rightarrow> Some st1)
      else None)"
| "fire (Settle now3 now4 outcome) st = Some (submitSettle now3 now4 outcome st)"
| "fire ClickReset st = (if messages st \<noteq> [] then Some (reset st) else None)"
| "fire ToggleDark st = Some (st\<lparr>darkMode := \<not> darkMode st\<rparr>)"
| "fire (LocationFound l) st = Some (st\<lparr>location := Some l\<rparr>)"

fun run :: "Event list \<Rightarrow> App \<Rightarrow> App option" where
  "run [] st = Some st"
| "run (e # es) st = (case fire e st of None \<Rightarrow> None | Some st1 \<Rightarrow> run es st1)"


section \<open>Capture component (components/Recorder.tsx)\<close>

text \<open>
  A device stream is the list of its tracks (\<^verbatim>\<open>stream.getTracks()\<close>); the device keeps
  the set of tracks that are live. \<open>Hooks\<close> are the three state values of one render.
  Every render of the component builds its own \<^verbatim>\<open>cleanupStream\<close>, closed over the
  state values of that render, so the model's \<open>cleanupStream\<close> takes them as its first
  argument. A state setter called after the component has unmounted does nothing.
  Of the recorder held in \<^verbatim>\<open>mediaRecorderRef\<close> the model keeps the \<^verbatim>\<open>onstop\<close> handler
  (the state values of the render that installed it) and whether \<^verbatim>\<open>stop()\<close> has been
  called with the handler still to run; it keeps one recorder, the latest. \<open>emitted\<close>
  lists the capture kinds handed to \<^verbatim>\<open>onCapture\<close>.
\<close>

type_synonym track = nat

type_synonym MediaStream = "track list"

datatype CaptureMode = ModeAudio | ModeVideo

record Hooks =
  mode :: "CaptureMode option"
  isRecording :: bool
  stream :: "MediaStream option"

record Recorder =
  hooks :: Hooks
  mounted :: bool
  live :: "track set"
  onstop :: "Hooks option"
  stopPending :: bool
  emitted :: "CaptureMode option list"

definition initialHooks :: Hooks where
  "initialHooks = \<lparr> mode = None, isRecording = False, stream = None \<rparr>"

definition mountRecorder :: "track set \<Rightarrow> Recorder" where
  "mountRecorder device =
     \<lparr> hooks = initialHooks, mounted = True, live = device, onstop = None,
       stopPending = False, emitted = [] \<rparr>"

definition setHooks :: "(Hooks \<Rightarrow> Hooks) \<Rightarrow> Recorder \<Rightarrow> Recorder" where
  "setHooks f r = (if mounted r then r\<lparr>hooks := f (hooks r)\<rparr> else r)"

definition cleanupStream :: "Hooks \<Rightarrow> Recorder \<Rightarrow> Recorder" where
  "cleanupStream render r =
     (let r1 = (case stream render of
                  None \<Rightarrow> r
                | Some s \<Rightarrow> setHooks (\<lambda>h. h\<lparr>stream := None\<rparr>) (r\<lparr>live := live r - set s\<rparr>))
      in setHooks (\<lambda>h. h\<lparr>mode := None, isRecording := False\<rparr>) r1)"

text \<open>\<^verbatim>\<open>startStream\<close>: \<open>Some newStream\<close> when \<^verbatim>\<open>getUserMedia\<close> grants the device, whose
  tracks are then live; \<open>None\<close> when it rejects, which only alerts the user.\<close>

definition startStream :: "CaptureMode \<Rightarrow> MediaStream option \<Rightarrow> Recorder \<Rightarrow> Recorder" where
  "startStream type granted r =
     (case granted of
        None \<Rightarrow> r
      | Some newStream \<Rightarrow>
          setHooks (\<lambda>h. h\<lparr>stream := Some newStream, mode := Some type\<rparr>)
            (r\<lparr>live := live r \<union> set newStream\<rparr>))"

text \<open>\<^verbatim>\<open>startRecording\<close> installs \<^verbatim>\<open>recorder.onstop\<close>, a closure of the current render.\<close>

definition startRecording :: "Recorder \<Rightarrow> Recorder" where
  "startRecording r =
     (case stream (hooks r) of
        None \<Rightarrow> r
      | Some s \<Rightarrow>
          setHooks (\<lambda>h. h\<lparr>isRecording := True\<rparr>)
            (r\<lparr>onstop := Some (hooks r), stopPending := False\<rparr>))"

definition stopRecording :: "Recorder \<Rightarrow> Recorder" where
  "stopRecording r =
     (if onstop r \<noteq> None \<and> isRecording (hooks r)
      then setHooks (\<lambda>h. h\<lparr>isRecording := False\<rparr>) (r\<lparr>stopPending := True\<rparr>)
      else r)"

text \<open>The \<^verbatim>\<open>onstop\<close> handler running after \<^verbatim>\<open>recorder.stop()\<close>: it emits the attachment
  and calls the \<^verbatim>\<open>cleanupStream\<close> of the render that started the recording.\<close>

definition recordingStopped :: "Recorder \<Rightarrow> Recorder" where
  "recordingStopped r =
     (case onstop r of
        Some render \<Rightarrow>
          if stopPending r
          then cleanupStream render (r\<lparr>emitted := emitted r @ [mode render], stopPending := False\<rparr>)
          else r
      | None \<Rightarrow> r)"

text \<open>The cancel button's \<^verbatim>\<open>onClick\<close> is the \<^verbatim>\<open>cleanupStream\<close> of the current render.\<close>

definition cancel :: "Recorder \<Rightarrow> Recorder" where
  "cancel r = cleanupStream (hooks r) r"

text \<open>
  Teardown. The effect of lines 19 to 23 has the dependency list \<^verbatim>\<open>[]\<close>: React runs it
  once, after the first render, and keeps the cleanup function it returned then. That
  function calls the \<^verbatim>\<open>cleanupStream\<close> of the first render, whose \<^verbatim>\<open>stream\<close> is the
  initial \<^verbatim>\<open>null\<close> of \<^verbatim>\<open>useState\<close>.
\<close>

definition unmount :: "Recorder \<Rightarrow> Recorder" where
  "unmount r = (cleanupStream initialHooks r)\<lparr>mounted := False\<rparr>"

text \<open>Example values used in the concrete instances below.\<close>

definition ex_attachment :: MediaAttachment where
  "ex_attachment =
     \<lparr> att_id = ''1700000000000'', att_type = Image, mimeType = ''image/png'',
       data = ''iVBORw0KGgo='', previewUrl = Some ''blob:preview'' \<rparr>"

definition ex_user ::
  "string \<Rightarrow> MediaAttachment list \<Rightarrow> int option \<Rightarrow> ChatMessage"
where
  "ex_user t atts p =
     \<lparr> msg_id = ''1700000000001'', role = User, text = Some t, attachments = Some atts,
       painLevel = p, groundingChunks = None, timestamp = 1700000000001 \<rparr>"

definition ex_intake :: App where
  "ex_intake =
     initialApp\<lparr>inputText := ''My knee hurts'', app_attachments := [ex_attachment],
       app_painLevel := Some 7\<rparr>"

definition ex_followup :: App where
  "ex_followup =
     initialApp\<lparr>inputText := ''Is it serious?'', app_attachments := [ex_attachment],
       app_painLevel := Some 7,
       messages := [ex_user ''My knee hurts'' [ex_attachment] (Some 7)], status := ERROR\<rparr>"

text \<open>A remote call that always fails, and the analysis client over it.\<close>

definition ex_failing_generate :: "GenerateRequest \<Rightarrow> string + GenerateResponse" where
  "ex_failing_generate request = Inl ''503 UNAVAILABLE''"

definition ex_failing_client ::
  "ChatMessage list \<Rightarrow> LatLng option \<Rightarrow> JsError + AnalysisResult"
where
  "ex_failing_client history loc =
     snd (analyzeHealthCondition ''prompt'' ex_failing_generate history loc)"

text \<open>A session: intake with text, a photo and pain level 7, a reply, a late capture, and
  a follow-up question.\<close>

definition ex_session :: "Event list" where
  "ex_session =
     [TypeText ''My knee hurts'', Capture ex_attachment, ClickPain 7,
      ClickStart 1700000000001 1700000000001,
      Settle 1700000000005 1700000000006
        (Inr \<lparr> result_text = ''It looks like a bruise.'', result_groundingChunks = Some [] \<rparr>),
      Capture ex_attachment,
      TypeText ''Is it serious?'',
      SendFollowUp 1700000000008 1700000000008]"

text \<open>A session that is reset while its first call is pending, the call then failing.\<close>

definition ex_reset_while_pending :: "Event list" where
  "ex_reset_while_pending =
     [TypeText ''My knee hurts'',
      ClickStart 1700000000001 1700000000001,
      ClickReset,
      Settle 1700000000009 1700000000009 (Inl (Error service_unreachable))]"


section \<open>Properties of the conversation formatter\<close>

declare nat_to_string.simps [simp del]

lemmas example_defs =
  ex_intake_def ex_followup_def ex_user_def ex_attachment_def initialApp_def

lemmas submit_defs =
  submitRejected_def submitSync_def afterSubmit_def newMessage_def handleSubmit_def
  submitSettle_def modelMessage_def

lemmas recorder_defs =
  mountRecorder_def initialHooks_def setHooks_def cleanupStream_def startStream_def
  startRecording_def stopRecording_def recordingStopped_def cancel_def unmount_def

lemma num_to_string_levels:
  assumes "0 \<le> n" and "n \<le> 10"
  shows "num_to_string n = (if n = 10 then ''10'' else [''0123456789'' ! nat n])"
proof -
  from assms have "n \<in> {0, 1, 2, 3, 4, 5, 6, 7, 8, 9, 10}"
    by simp arith
  then show ?thesis
    by (elim insertE) (simp_all add: num_to_string_def nat_to_string.simps digit_def)
qed

lemma bracket_in_annotation: "CHR ''['' \<in> set (pain_annotation n)"
  by (simp add: pain_annotation_def)

lemma default_prompt_no_annotation: "\<not> sublist (pain_annotation n) default_prompt"
proof
  assume "sublist (pain_annotation n) default_prompt"
  then have "set (pain_annotation n) \<subseteq> set default_prompt"
    by (rule set_mono_sublist)
  with bracket_in_annotation [of n] have "CHR ''['' \<in> set default_prompt"
    by blast
  then show False
    by (simp add: default_prompt_def)
qed

lemma textContent_no_pain:
  "painLevel m = None \<Longrightarrow>
   textContent m = (if textOrEmpty m = [] \<and> attachmentList m = [] then default_prompt else textOrEmpty m)"
  by (simp add: textContent_def Let_def)

lemma textContent_pain:
  "painLevel m = Some n \<Longrightarrow> textContent m = textOrEmpty m @ pain_suffix n"
  by (simp add: textContent_def Let_def pain_suffix_def)

text \<open>
  C1, as stated, fails: a user message with no pain level whose own text is the note
  is passed through unchanged, so the emitted text part contains the note.
\<close>

theorem pain_note_typed_by_user:
  "role (ex_user (pain_annotation 5) [] None) = User \<and>
   painLevel (ex_user (pain_annotation 5) [] None) = None \<and>
   parts (formatMessage (ex_user (pain_annotation 5) [] None)) =
     [TextPart (Some ''[System Note: User indicates Pain Level: 5/10]'')]"
  by (simp add: ex_user_def formatMessage_def textContent_def textOrEmpty_def attachmentList_def
      attachmentParts_def pain_annotation_def num_to_string_def nat_to_string.simps digit_def)

text \<open>
  C1, amended. For a user message without a pain level the formatter appends nothing:
  an emitted text part is the message's own text or the default prompt, and it contains
  the note only if the message's own text does. With a pain level \<open>n\<close> the text part is
  the message's text, two newlines, and the note; for \<open>n\<close> from 0 to 10 the note reads
  \<^verbatim>\<open>[System Note: User indicates Pain Level: n/10]\<close> with \<open>n\<close> in decimal.
\<close>

theorem pain_annotation_text_part:
  assumes "role m = User"
  shows "(painLevel m = None \<longrightarrow>
            (\<forall>t. TextPart (Some t) \<in> set (parts (formatMessage m)) \<longrightarrow>
               (t = textOrEmpty m \<or> t = default_prompt) \<and>
               (\<forall>n. sublist (pain_annotation n) t \<longrightarrow> sublist (pain_annotation n) (textOrEmpty m)))) \<and>
         (\<forall>n. painLevel m = Some n \<longrightarrow>
            parts (formatMessage m) =
              attachmentParts m @
              [TextPart (Some (textOrEmpty m @ ''\<newline>\<newline>'' @ pain_annotation n))]) \<and>
         (\<forall>n. 0 \<le> n \<and> n \<le> 10 \<longrightarrow>
            pain_annotation n =
              ''[System Note: User indicates Pain Level: '' @
              (if n = 10 then ''10'' else [''0123456789'' ! nat n]) @
              ''/10]'')"
proof (intro conjI impI allI)
  fix t
  assume none: "painLevel m = None" and t: "TextPart (Some t) \<in> set (parts (formatMessage m))"
  from t assms have "t = textContent m"
    by (auto simp: formatMessage_def attachmentParts_def split: if_splits)
  with none show c: "t = textOrEmpty m \<or> t = default_prompt"
    by (simp add: textContent_no_pain split: if_splits)
  fix n
  assume "sublist (pain_annotation n) t"
  with c default_prompt_no_annotation [of n]
  show "sublist (pain_annotation n) (textOrEmpty m)"
    by auto
next
  fix n
  assume "painLevel m = Some n"
  then show "parts (formatMessage m) =
     attachmentParts m @ [TextPart (Some (textOrEmpty m @ ''\<newline>\<newline>'' @ pain_annotation n))]"
    using assms by (simp add: formatMessage_def textContent_pain pain_suffix_def)
next
  fix n :: int
  assume "0 \<le> n \<and> n \<le> 10"
  then show "pain_annotation n =
     ''[System Note: User indicates Pain Level: '' @
     (if n = 10 then ''10'' else [''0123456789'' ! nat n]) @ ''/10]''"
    by (simp add: pain_annotation_def num_to_string_levels)
qed

theorem pain_annotation_text_part_witness:
  "role (ex_user ''My knee hurts'' [] None) = User \<and>
   painLevel (ex_user ''My knee hurts'' [] None) = None \<and>
   parts (formatMessage (ex_user ''My knee hurts'' [] None)) = [TextPart (Some ''My knee hurts'')] \<and>
   role (ex_user ''My knee hurts'' [ex_attachment] (Some 7)) = User \<and>
   painLevel (ex_user ''My knee hurts'' [ex_attachment] (Some 7)) = Some 7 \<and>
   parts (formatMessage (ex_user ''My knee hurts'' [ex_attachment] (Some 7))) =
     [InlineData ''image/png'' ''iVBORw0KGgo='',
      TextPart (Some ''My knee hurts\<newline>\<newline>[System Note: User indicates Pain Level: 7/10]'')]"
  using pain_annotation_text_part [of "ex_user ''My knee hurts'' [] None"]
    pain_annotation_text_part [of "ex_user ''My knee hurts'' [ex_attachment] (Some 7)"]
  by (simp add: ex_user_def ex_attachment_def formatMessage_def textContent_def textOrEmpty_def
      attachmentList_def attachmentParts_def pain_suffix_def pain_annotation_def)


text \<open>
  C2, as stated, fails: a user message with one attachment, an empty text and no pain
  level is formatted to the attachment's part alone, with no text part after it.
\<close>

theorem photo_only_turn_has_no_text_part:
  "role (ex_user [] [ex_attachment] None) = User \<and>
   attachments (ex_user [] [ex_attachment] None) = Some [ex_attachment] \<and>
   parts (formatMessage (ex_user [] [ex_attachment] None)) =
     [InlineData ''image/png'' ''iVBORw0KGgo='']"
  by (simp add: ex_user_def ex_attachment_def formatMessage_def textContent_def textOrEmpty_def
      attachmentList_def attachmentParts_def)

text \<open>
  C2, amended. A user turn is one inline part per attachment, in order, each with the
  attachment's MIME type and payload, followed by at most one text part: none when the
  text is empty, the pain level absent and there is an attachment; the default prompt
  when text, pain level and attachments are all absent; otherwise the text with the pain
  note, if any. The turn is never empty.
\<close>

theorem user_turn_parts:
  assumes "role m = User"
  shows "(textOrEmpty m = [] \<and> painLevel m = None \<and> attachmentList m \<noteq> [] \<longrightarrow>
            parts (formatMessage m) =
              map (\<lambda>att. InlineData (mimeType att) (data att)) (attachmentList m)) \<and>
         (textOrEmpty m = [] \<and> painLevel m = None \<and> attachmentList m = [] \<longrightarrow>
            parts (formatMessage m) = [TextPart (Some default_prompt)]) \<and>
         (textOrEmpty m \<noteq> [] \<or> painLevel m \<noteq> None \<longrightarrow>
            parts (formatMessage m) =
              map (\<lambda>att. InlineData (mimeType att) (data att)) (attachmentList m) @
              [TextPart (Some (textOrEmpty m @
                 (case painLevel m of None \<Rightarrow> [] | Some n \<Rightarrow> pain_suffix n)))]) \<and>
         parts (formatMessage m) \<noteq> []"
proof (cases "painLevel m")
  case None
  then show ?thesis
    using assms
    by (simp add: formatMessage_def attachmentParts_def textContent_no_pain default_prompt_def)
next
  case (Some n)
  then show ?thesis
    using assms
    by (simp add: formatMessage_def attachmentParts_def textContent_pain pain_suffix_def)
qed

theorem user_turn_parts_witness:
  "role (ex_user [] [ex_attachment] None) = User \<and>
   parts (formatMessage (ex_user [] [ex_attachment] None)) =
     [InlineData ''image/png'' ''iVBORw0KGgo=''] \<and>
   role (ex_user [] [] None) = User \<and>
   parts (formatMessage (ex_user [] [] None)) = [TextPart (Some ''Please analyze this.'')] \<and>
   role (ex_user ''It itches'' [ex_attachment] None) = User \<and>
   parts (formatMessage (ex_user ''It itches'' [ex_attachment] None)) =
     [InlineData ''image/png'' ''iVBORw0KGgo='', TextPart (Some ''It itches'')]"
  using user_turn_parts [of "ex_user [] [ex_attachment] None"]
    user_turn_parts [of "ex_user [] [] None"]
    user_turn_parts [of "ex_user ''It itches'' [ex_attachment] None"]
  by (simp add: ex_user_def ex_attachment_def textOrEmpty_def attachmentList_def
      default_prompt_def)

text \<open>
  C3. Formatting a history with one more message appended gives the formatted turns of
  the history, unchanged, followed by exactly one turn for the new message.
\<close>

theorem formattedHistory_append:
  "formattedHistory (H @ [m]) = formattedHistory H @ [formatMessage m]"
  by (simp add: formattedHistory_def)


section \<open>Properties of the analysis client\<close>

text \<open>
  C6. Whatever the history and whatever error the remote call raises,
  \<^verbatim>\<open>analyzeHealthCondition\<close> throws one error with one fixed message; the provider's
  error goes to the console log and nowhere else.
\<close>

theorem generate_failure_is_generic:
  assumes "generateContent (generateRequest SYSTEM_INSTRUCTION history) = Inl e"
  shows "analyzeHealthCondition SYSTEM_INSTRUCTION generateContent history loc =
           ([e],
            Inl (Error
              ''I couldn't reach the service. Please check your connection and try again.''))"
  using assms by (simp add: analyzeHealthCondition_def service_unreachable_def)

theorem generate_failure_is_generic_witness:
  "ex_failing_generate (generateRequest ''prompt'' [ex_user ''hello'' [] None]) =
     Inl ''503 UNAVAILABLE'' \<and>
   analyzeHealthCondition ''prompt'' ex_failing_generate [ex_user ''hello'' [] None] None =
     ([''503 UNAVAILABLE''],
      Inl (Error ''I couldn't reach the service. Please check your connection and try again.''))"
  using generate_failure_is_generic [of ex_failing_generate "''prompt''"
      "[ex_user ''hello'' [] None]" "''503 UNAVAILABLE''" None]
  by (simp add: ex_failing_generate_def)


section \<open>Properties of the session controller\<close>

text \<open>
  C4. On a submit that passes the guards, the history handed to the analysis client is
  the stored messages, in order, followed by the one new user message, and the state
  set before the call is awaited holds that same history, with the input text cleared
  and the status ANALYZING.
\<close>

theorem submit_history_order:
  assumes "\<not> submitRejected isFollowUp st"
  shows "submitSync isFollowUp now1 now2 st =
           Some (afterSubmit isFollowUp now1 now2 st,
                 messages st @ [newMessage isFollowUp now1 now2 st]) \<and>
         messages (afterSubmit isFollowUp now1 now2 st) =
           messages st @ [newMessage isFollowUp now1 now2 st] \<and>
         role (newMessage isFollowUp now1 now2 st) = User \<and>
         text (newMessage isFollowUp now1 now2 st) = Some (inputText st) \<and>
         inputText (afterSubmit isFollowUp now1 now2 st) = [] \<and>
         status (afterSubmit isFollowUp now1 now2 st) = ANALYZING \<and>
         handleSubmit isFollowUp now1 now2 now3 now4 analyze st =
           submitSettle now3 now4
             (analyze (messages st @ [newMessage isFollowUp now1 now2 st]) (location st))
             (afterSubmit isFollowUp now1 now2 st)"
  using assms
  by (simp add: submitSync_def handleSubmit_def afterSubmit_def newMessage_def Let_def)


theorem submit_history_order_witness:
  "\<not> submitRejected True ex_followup \<and>
   submitSync True 1700000000002 1700000000002 ex_followup =
     Some (afterSubmit True 1700000000002 1700000000002 ex_followup,
           [ex_user ''My knee hurts'' [ex_attachment] (Some 7),
            \<lparr> msg_id = ''1700000000002'', role = User, text = Some ''Is it serious?'',
              attachments = Some [], painLevel = None, groundingChunks = None,
              timestamp = 1700000000002 \<rparr>]) \<and>
   messages (afterSubmit True 1700000000002 1700000000002 ex_followup) =
     [ex_user ''My knee hurts'' [ex_attachment] (Some 7),
      \<lparr> msg_id = ''1700000000002'', role = User, text = Some ''Is it serious?'',
        attachments = Some [], painLevel = None, groundingChunks = None,
        timestamp = 1700000000002 \<rparr>]"
  using submit_history_order [of True ex_followup 1700000000002 1700000000002]
  by (simp add: example_defs submitRejected_def newMessage_def num_to_string_def
      nat_to_string.simps digit_def)

text \<open>No event other than a reset removes or rewrites a stored message.\<close>

lemma fire_keeps_history:
  assumes "fire ev st = Some st1" and "ev \<noteq> ClickReset"
  shows "prefix (messages st) (messages st1)"
proof (cases ev)
  case (Settle now3 now4 outcome)
  with assms(1) show ?thesis
    by (auto simp: submitSettle_def split: sum.splits JsError.splits)
qed (use assms in \<open>auto simp: handleCapture_def removeAttachment_def clickPain_def
      submitSync_def afterSubmit_def Let_def split: if_splits\<close>)

lemma run_keeps_history:
  "run evs st = Some st1 \<Longrightarrow> ClickReset \<notin> set evs \<Longrightarrow> prefix (messages st) (messages st1)"
proof (induction evs arbitrary: st)
  case Nil
  then show ?case by simp
next
  case (Cons ev evs)
  from Cons.prems(1) obtain st2 where f: "fire ev st = Some st2" and r: "run evs st2 = Some st1"
    by (auto split: option.splits)
  from Cons.prems(2) have "ev \<noteq> ClickReset" and n: "ClickReset \<notin> set evs"
    by auto
  with f have "prefix (messages st) (messages st2)"
    by (simp add: fire_keeps_history)
  moreover from Cons.IH [OF r n] have "prefix (messages st2) (messages st1)" .
  ultimately show ?case
    by (rule prefix_order.trans)
qed

text \<open>
  C5, as stated, fails: the reset button stays enabled while the call is pending. After
  an intake submit the history holds the user message and the status is ANALYZING; a
  reset and then the rejection of the call leave status ERROR and an empty history.
\<close>

theorem reset_while_pending_drops_user_message:
  "map_option messages (run (take 2 ex_reset_while_pending) initialApp) =
     Some [\<lparr> msg_id = ''1700000000001'', role = User, text = Some ''My knee hurts'',
             attachments = Some [], painLevel = None, groundingChunks = None,
             timestamp = 1700000000001 \<rparr>] \<and>
   map_option status (run (take 2 ex_reset_while_pending) initialApp) = Some ANALYZING \<and>
   map_option messages (run ex_reset_while_pending initialApp) = Some [] \<and>
   map_option status (run ex_reset_while_pending initialApp) = Some ERROR"
  by (simp add: ex_reset_while_pending_def initialApp_def reset_def submit_defs Let_def
      num_to_string_def nat_to_string.simps digit_def)

text \<open>
  C5, amended. When the call of a submit rejects, the status becomes ERROR and the
  rejection appends nothing, whatever the state it runs on; and provided the session was
  not reset while the call was pending, the history then still begins with the earlier
  messages followed by the user message just submitted. With nothing at all happening
  while the call is pending, the history is exactly that.
\<close>

theorem rejected_call_keeps_user_message:
  assumes "submitSync isFollowUp now1 now2 st = Some (st1, newHistory)"
    and "run evs st1 = Some st2"
    and "ClickReset \<notin> set evs"
  shows "newHistory = messages st @ [newMessage isFollowUp now1 now2 st] \<and>
         role (newMessage isFollowUp now1 now2 st) = User \<and>
         prefix newHistory (messages st2) \<and>
         status (submitSettle now3 now4 (Inl e) st2) = ERROR \<and>
         messages (submitSettle now3 now4 (Inl e) st2) = messages st2 \<and>
         (\<forall>s. status (submitSettle now3 now4 (Inl e) s) = ERROR \<and>
              messages (submitSettle now3 now4 (Inl e) s) = messages s) \<and>
         (\<forall>analyze. analyze newHistory (location st) = Inl e \<longrightarrow>
            status (handleSubmit isFollowUp now1 now2 now3 now4 analyze st) = ERROR \<and>
            messages (handleSubmit isFollowUp now1 now2 now3 now4 analyze st) = newHistory)"
proof -
  from assms(1) have h: "newHistory = messages st @ [newMessage isFollowUp now1 now2 st]"
    and s1: "st1 = afterSubmit isFollowUp now1 now2 st"
    by (auto simp: submitSync_def split: if_splits)
  from s1 h have m1: "messages st1 = newHistory"
    by (simp add: afterSubmit_def Let_def)
  from run_keeps_history [OF assms(2) assms(3)] m1 have p: "prefix newHistory (messages st2)"
    by simp
  have settle: "status (submitSettle now3 now4 (Inl e) s) = ERROR \<and>
      messages (submitSettle now3 now4 (Inl e) s) = messages s" for s
    by (cases e) (simp add: submitSettle_def)
  have "status (handleSubmit isFollowUp now1 now2 now3 now4 analyze st) = ERROR \<and>
      messages (handleSubmit isFollowUp now1 now2 now3 now4 analyze st) = newHistory"
    if "analyze newHistory (location st) = Inl e" for analyze
    using that assms(1) settle [of st1] m1 by (simp add: handleSubmit_def)
  with h p settle show ?thesis
    by (simp add: newMessage_def)
qed

theorem rejected_call_keeps_user_message_witness:
  "submitSync False 1700000000001 1700000000001 ex_intake =
     Some (afterSubmit False 1700000000001 1700000000001 ex_intake,
           [ex_user ''My knee hurts'' [ex_attachment] (Some 7)]) \<and>
   run [Capture ex_attachment, ToggleDark]
     (afterSubmit False 1700000000001 1700000000001 ex_intake) \<noteq> None \<and>
   ClickReset \<notin> set [Capture ex_attachment, ToggleDark] \<and>
   status (submitSettle 1700000000009 1700000000009 (Inl (Error service_unreachable))
     (the (run [Capture ex_attachment, ToggleDark]
        (afterSubmit False 1700000000001 1700000000001 ex_intake)))) = ERROR \<and>
   messages (submitSettle 1700000000009 1700000000009 (Inl (Error service_unreachable))
     (the (run [Capture ex_attachment, ToggleDark]
        (afterSubmit False 1700000000001 1700000000001 ex_intake)))) =
     [ex_user ''My knee hurts'' [ex_attachment] (Some 7)]"
  using rejected_call_keeps_user_message [of False 1700000000001 1700000000001 ex_intake
      "afterSubmit False 1700000000001 1700000000001 ex_intake"
      "[ex_user ''My knee hurts'' [ex_attachment] (Some 7)]"
      "[Capture ex_attachment, ToggleDark]"
      "the (run [Capture ex_attachment, ToggleDark]
         (afterSubmit False 1700000000001 1700000000001 ex_intake))"
      1700000000009 1700000000009 "Error service_unreachable"]
  by (simp add: example_defs submit_defs handleCapture_def Let_def num_to_string_def
      nat_to_string.simps digit_def)

text \<open>
  C7. A submit with no text and no attachment that is not a follow-up, and a follow-up
  with empty text, return at the guards: the state is unchanged and the analysis client
  is not called.
\<close>

theorem empty_submit_is_noop:
  assumes "(inputText st = [] \<and> app_attachments st = [] \<and> \<not> isFollowUp) \<or>
           (isFollowUp \<and> inputText st = [])"
  shows "handleSubmit isFollowUp now1 now2 now3 now4 analyze st = st \<and>
         submitSync isFollowUp now1 now2 st = None"
  using assms by (auto simp: handleSubmit_def submitSync_def submitRejected_def)

theorem empty_submit_is_noop_witness:
  "inputText initialApp = [] \<and> app_attachments initialApp = [] \<and>
   handleSubmit False 1 1 2 2 ex_failing_client initialApp = initialApp \<and>
   submitSync False 1 1 initialApp = None \<and>
   inputText (ex_followup\<lparr>inputText := []\<rparr>) = [] \<and>
   handleSubmit True 1 1 2 2 ex_failing_client (ex_followup\<lparr>inputText := []\<rparr>) =
     ex_followup\<lparr>inputText := []\<rparr> \<and>
   submitSync True 1 1 (ex_followup\<lparr>inputText := []\<rparr>) = None"
  using empty_submit_is_noop [of initialApp False 1 1 2 2 ex_failing_client]
    empty_submit_is_noop [of "ex_followup\<lparr>inputText := []\<rparr>" True 1 1 2 2 ex_failing_client]
  by (simp add: initialApp_def)


subsection \<open>The pain level stays between 1 and 10\<close>

lemma fire_pain_range:
  assumes "fire e st = Some st1"
    and "\<forall>n. app_painLevel st = Some n \<longrightarrow> 1 \<le> n \<and> n \<le> 10"
  shows "\<forall>n. app_painLevel st1 = Some n \<longrightarrow> 1 \<le> n \<and> n \<le> 10"
proof (cases e)
  case (ClickPain level)
  with assms show ?thesis
    by (auto simp: clickPain_def pain_levels_def split: if_splits)
next
  case (Settle now3 now4 outcome)
  with assms show ?thesis
    by (auto simp: submitSettle_def split: sum.splits JsError.splits)
qed (use assms in \<open>auto simp: handleCapture_def removeAttachment_def reset_def submitSync_def
      afterSubmit_def Let_def split: if_splits\<close>)

lemma run_pain_range:
  "run evs st = Some st1 \<Longrightarrow>
   (\<forall>n. app_painLevel st = Some n \<longrightarrow> 1 \<le> n \<and> n \<le> 10) \<Longrightarrow>
   (\<forall>n. app_painLevel st1 = Some n \<longrightarrow> 1 \<le> n \<and> n \<le> 10)"
proof (induction evs arbitrary: st)
  case Nil
  then show ?case by simp
next
  case (Cons e evs)
  from Cons.prems(1) obtain st2 where f: "fire e st = Some st2" and r: "run evs st2 = Some st1"
    by (auto split: option.splits)
  from fire_pain_range [OF f Cons.prems(2)] Cons.IH [OF r] show ?case
    by blast
qed

text \<open>
  C10. In every state the session can reach, the pain level is absent or an integer
  from 1 to 10; the selector accepts only the levels 1 to 10, and a click on the level
  that is selected clears it.
\<close>

theorem pain_level_one_to_ten:
  assumes "run evs initialApp = Some st"
  shows "(app_painLevel st = None \<or>
            (\<exists>n. app_painLevel st = Some n \<and> 1 \<le> n \<and> n \<le> 10)) \<and>
         (\<forall>level st1. fire (ClickPain level) st = Some st1 \<longrightarrow>
            1 \<le> level \<and> level \<le> 10 \<and>
            app_painLevel st1 = (if app_painLevel st = Some level then None else Some level)) \<and>
         set pain_levels = {1..10}"
proof (intro conjI allI impI)
  have "\<forall>n. app_painLevel st = Some n \<longrightarrow> 1 \<le> n \<and> n \<le> 10"
    by (rule run_pain_range [OF assms]) (simp add: initialApp_def)
  then show "app_painLevel st = None \<or> (\<exists>n. app_painLevel st = Some n \<and> 1 \<le> n \<and> n \<le> 10)"
    by (cases "app_painLevel st") auto
next
  have "x \<in> set pain_levels \<longleftrightarrow> x \<in> {1..10}" for x
    unfolding pain_levels_def by simp arith
  then show "set pain_levels = {1..10}"
    by blast
next
  fix level st1
  assume f: "fire (ClickPain level) st = Some st1"
  then have l: "level \<in> set pain_levels" and s: "st1 = clickPain level st"
    by (auto split: if_splits)
  from l show "1 \<le> level" and "level \<le> 10"
    by (auto simp: pain_levels_def)
  from s show "app_painLevel st1 = (if app_painLevel st = Some level then None else Some level)"
    by (auto simp: clickPain_def)
qed

theorem pain_level_one_to_ten_witness:
  "run [ClickPain 7] initialApp = Some (initialApp\<lparr>app_painLevel := Some 7\<rparr>) \<and>
   app_painLevel (initialApp\<lparr>app_painLevel := Some 7\<rparr>) = Some 7 \<and>
   fire (ClickPain 7) (initialApp\<lparr>app_painLevel := Some 7\<rparr>) = Some initialApp \<and>
   fire (ClickPain 0) (initialApp\<lparr>app_painLevel := Some 7\<rparr>) = None \<and>
   app_painLevel initialApp = None"
  using pain_level_one_to_ten [of "[ClickPain 7]" "initialApp\<lparr>app_painLevel := Some 7\<rparr>"]
  by (simp add: initialApp_def clickPain_def pain_levels_def)


subsection \<open>Only the first turn carries attachments or a pain level\<close>

lemma tl_snoc_plain:
  assumes "\<forall>m\<in>set (tl ms). attachmentList m = [] \<and> painLevel m = None"
    and "attachmentList x = [] \<and> painLevel x = None"
  shows "\<forall>m\<in>set (tl (ms @ [x])). attachmentList m = [] \<and> painLevel m = None"
  using assms by (cases ms) auto

lemma followup_message_plain:
  "attachmentList (newMessage True now1 now2 st) = [] \<and>
   painLevel (newMessage True now1 now2 st) = None"
  by (simp add: newMessage_def attachmentList_def)

lemma model_message_plain:
  "attachmentList (modelMessage now3 now4 result) = [] \<and>
   painLevel (modelMessage now3 now4 result) = None"
  by (simp add: modelMessage_def attachmentList_def)

lemma fire_later_turns_plain:
  assumes "fire e st = Some st1"
    and "\<forall>m\<in>set (tl (messages st)). attachmentList m = [] \<and> painLevel m = None"
  shows "\<forall>m\<in>set (tl (messages st1)). attachmentList m = [] \<and> painLevel m = None"
proof (cases e)
  case (ClickStart now1 now2)
  with assms(1) have "messages st1 = messages st \<or> (\<exists>x. messages st1 = [x])"
    by (auto simp: submitSync_def afterSubmit_def Let_def split: if_splits)
  with assms(2) show ?thesis
    by auto
next
  case (SendFollowUp now1 now2)
  with assms(1) have "messages st1 = messages st \<or>
      messages st1 = messages st @ [newMessage True now1 now2 st]"
    by (auto simp: submitSync_def afterSubmit_def Let_def split: if_splits)
  with tl_snoc_plain [OF assms(2) followup_message_plain] assms(2) show ?thesis
    by metis
next
  case (Settle now3 now4 outcome)
  with assms(1) have "messages st1 = messages st \<or>
      (\<exists>result. messages st1 = messages st @ [modelMessage now3 now4 result])"
    by (auto simp: submitSettle_def split: sum.splits JsError.splits)
  with tl_snoc_plain [OF assms(2) model_message_plain] assms(2) show ?thesis
    by metis
qed (use assms in \<open>auto simp: handleCapture_def removeAttachment_def reset_def clickPain_def
      split: if_splits\<close>)

lemma run_later_turns_plain:
  "run evs st = Some st1 \<Longrightarrow>
   (\<forall>m\<in>set (tl (messages st)). attachmentList m = [] \<and> painLevel m = None) \<Longrightarrow>
   (\<forall>m\<in>set (tl (messages st1)). attachmentList m = [] \<and> painLevel m = None)"
proof (induction evs arbitrary: st)
  case Nil
  then show ?case by simp
next
  case (Cons e evs)
  from Cons.prems(1) obtain st2 where f: "fire e st = Some st2" and r: "run evs st2 = Some st1"
    by (auto split: option.splits)
  from Cons.IH [OF r fire_later_turns_plain [OF f Cons.prems(2)]] show ?case .
qed

text \<open>
  C8. A user message made by a follow-up submit has an empty attachment list and no
  pain level, whatever the state holds; and in every state the session can reach, no
  message after the first carries an attachment or a pain level, the intake submit
  being offered only while the history is empty.
\<close>

theorem followup_turns_carry_no_media:
  assumes "run evs initialApp = Some st"
  shows "(\<forall>st0 now1 now2.
            role (newMessage True now1 now2 st0) = User \<and>
            attachments (newMessage True now1 now2 st0) = Some [] \<and>
            painLevel (newMessage True now1 now2 st0) = None) \<and>
         (\<forall>m\<in>set (tl (messages st)). attachmentList m = [] \<and> painLevel m = None) \<and>
         (\<forall>now1 now2. messages st \<noteq> [] \<longrightarrow> fire (ClickStart now1 now2) st = None)"
proof (intro conjI)
  show "\<forall>st0 now1 now2.
          role (newMessage True now1 now2 st0) = User \<and>
          attachments (newMessage True now1 now2 st0) = Some [] \<and>
          painLevel (newMessage True now1 now2 st0) = None"
    by (simp add: newMessage_def)
  show "\<forall>m\<in>set (tl (messages st)). attachmentList m = [] \<and> painLevel m = None"
    by (rule run_later_turns_plain [OF assms]) (simp add: initialApp_def)
  show "\<forall>now1 now2. messages st \<noteq> [] \<longrightarrow> fire (ClickStart now1 now2) st = None"
    by simp
qed

theorem followup_turns_carry_no_media_witness:
  "run ex_session initialApp \<noteq> None \<and>
   app_painLevel (the (run ex_session initialApp)) = Some 7 \<and>
   app_attachments (the (run ex_session initialApp)) = [ex_attachment] \<and>
   map role (messages (the (run ex_session initialApp))) = [User, Model, User] \<and>
   map painLevel (messages (the (run ex_session initialApp))) = [Some 7, None, None] \<and>
   map attachments (messages (the (run ex_session initialApp))) =
     [Some [ex_attachment], None, Some []]"
  using followup_turns_carry_no_media [of ex_session "the (run ex_session initialApp)"]
  by (simp add: ex_session_def initialApp_def handleCapture_def clickPain_def pain_levels_def
      submit_defs Let_def)


section \<open>Properties of the capture component\<close>

text \<open>Cancel and the completion of a recording stop every track of the stream they
  hold; teardown stops none.\<close>

lemma cancel_stops_tracks:
  "stream (hooks r) = Some s \<Longrightarrow> live (cancel r) \<inter> set s = {}"
  by (auto simp: cancel_def cleanupStream_def setHooks_def Let_def)

lemma completion_stops_tracks:
  "onstop r = Some render \<Longrightarrow> stopPending r \<Longrightarrow> stream render = Some s \<Longrightarrow>
   live (recordingStopped r) \<inter> set s = {}"
  by (auto simp: recordingStopped_def cleanupStream_def setHooks_def Let_def)

lemma unmount_stops_nothing: "live (unmount r) = live r"
  by (simp add: unmount_def cleanupStream_def initialHooks_def setHooks_def Let_def)

text \<open>
  C9 asks that cancel, completion and teardown each stop every track of the acquired
  stream. On a camera stream with two tracks, cancel and completion leave no live track;
  teardown right after the stream was acquired leaves both tracks live.
\<close>

theorem teardown_leaves_stream_open:
  "stream (hooks (startStream ModeVideo (Some [0, 1]) (mountRecorder {}))) = Some [0, 1] \<and>
   live (startStream ModeVideo (Some [0, 1]) (mountRecorder {})) = {0, 1} \<and>
   live (cancel (startStream ModeVideo (Some [0, 1]) (mountRecorder {}))) = {} \<and>
   live (recordingStopped (stopRecording (startRecording
           (startStream ModeVideo (Some [0, 1]) (mountRecorder {}))))) = {} \<and>
   mounted (unmount (startStream ModeVideo (Some [0, 1]) (mountRecorder {}))) = False \<and>
   live (unmount (startStream ModeVideo (Some [0, 1]) (mountRecorder {}))) = {0, 1}"
  by (simp add: recorder_defs Let_def)

end
